theory Spec2Isabelle
  imports Main "HOL-Library.Sublist"
begin

section \<open>Values of the service\<close>

text \<open>
  The service of \<^verbatim>\<open>main.py\<close> is three FastAPI handlers over one file on disk
  (\<^verbatim>\<open>CSV_PATH\<close>) and two libraries it does not implement: pandas (parsing and
  rendering tables) and the ollama client (the inference backend).

  A Python \<^verbatim>\<open>str\<close> and a Python \<^verbatim>\<open>bytes\<close> are both a \<^typ>\<open>string\<close>; a
  character outside ASCII stands as the bytes of its UTF-8 encoding.

  An exception raised by a library is a \<open>py_exn\<close>: its class name and the text
  \<^verbatim>\<open>str(e)\<close>. Only subclasses of \<^verbatim>\<open>Exception\<close> are modelled, the ones the
  handlers' \<^verbatim>\<open>except Exception\<close> clauses catch. What a handler lets escape is an
  \<open>exn\<close>: an \<^verbatim>\<open>HTTPException\<close> with its status code and detail, or a library
  exception that no clause caught (\<open>Raised\<close>), which the framework answers with
  status 500.
\<close>

datatype py_exn = PyExn (exn_class: string) (exn_str: string)

datatype exn = HTTPException (status_code: nat) (detail: string) | Raised py_exn

text \<open>A pandas \<^verbatim>\<open>DataFrame\<close> read from CSV text: the header and the rows of cells.\<close>

record dataframe =
  df_columns :: "string list"
  df_rows :: "string list list"

text \<open>The keyword arguments of one \<^verbatim>\<open>ollama.generate\<close> call.\<close>

record gen_request =
  model :: string
  prompt :: string
  options :: "(string \<times> int) list"

text \<open>What \<^verbatim>\<open>df.to_csv(CSV_PATH, index=False)\<close> does to the disk. It writes the whole
  text (\<open>Written\<close>); or opening the path raises and the file stays as it was
  (\<open>OpenFailed\<close>); or the path is opened for writing, which creates the file or empties it,
  and the write raises after some characters of the text have reached the disk
  (\<open>WriteFailed\<close>, with their number).\<close>

datatype write_outcome = Written | OpenFailed py_exn | WriteFailed py_exn nat

text \<open>An uploaded file: what \<^verbatim>\<open>await file.read()\<close> gives.\<close>

datatype UploadFile = UploadFile (read: "py_exn + string")

text \<open>
  The world the handlers act on: the text of the file at \<^verbatim>\<open>CSV_PATH\<close> (\<open>None\<close> when
  there is no file) and the requests sent to \<^verbatim>\<open>ollama.generate\<close> so far, oldest first.
  Log output is not part of it.
\<close>

record world =
  csv_file :: "string option"
  generate_calls :: "gen_request list"

text \<open>
  The libraries and the runtime around the handlers, each a function of its arguments:
  \<^item> \<open>decode_utf8\<close>: \<^verbatim>\<open>contents.decode('utf-8')\<close>;
  \<^item> \<open>read_csv\<close>: \<^verbatim>\<open>pd.read_csv\<close> on CSV text;
  \<^item> \<open>to_csv\<close>: the text \<^verbatim>\<open>df.to_csv(index=False)\<close> produces;
  \<^item> \<open>disk_write\<close>: how writing that text to \<^verbatim>\<open>CSV_PATH\<close> ends;
  \<^item> \<open>set_iter\<close>: the order in which Python iterates a set of strings (it depends on
    the process's hash seed);
  \<^item> \<open>tabulate_importable\<close>: whether \<^verbatim>\<open>import tabulate\<close> works;
  \<^item> \<open>pip_install\<close>: \<^verbatim>\<open>subprocess.run(["pip", "install", "tabulate"], check=True)\<close>,
    \<open>None\<close> when it returns, the exception when it raises;
  \<^item> \<open>to_markdown\<close>, \<open>to_string\<close>: the two renderers of a table;
  \<^item> \<open>ollama_generate\<close>: the dictionary \<^verbatim>\<open>ollama.generate\<close> returns for a request;
  \<^item> \<open>ollama_list\<close>: the dictionary \<^verbatim>\<open>ollama.list()\<close> returns, its \<^verbatim>\<open>'models'\<close>
    entry a list of dictionaries.
\<close>

record env =
  decode_utf8 :: "string \<Rightarrow> py_exn + string"
  read_csv :: "string \<Rightarrow> py_exn + dataframe"
  to_csv :: "dataframe \<Rightarrow> string"
  disk_write :: "dataframe \<Rightarrow> write_outcome"
  set_iter :: "string set \<Rightarrow> string list"
  tabulate_importable :: bool
  pip_install :: "py_exn option"
  to_markdown :: "dataframe \<Rightarrow> py_exn + string"
  to_string :: "dataframe \<Rightarrow> py_exn + string"
  ollama_generate :: "gen_request \<Rightarrow> py_exn + (string \<rightharpoonup> string)"
  ollama_list :: "py_exn + (string \<rightharpoonup> (string \<rightharpoonup> string) list)"

text \<open>The three response bodies.\<close>

record upload_response =
  message :: string
  columns :: "string list"

record ask_response =
  question :: string
  answer :: string

record health_status =
  csv_loaded :: bool
  ollama_running :: bool
  model_available :: bool

section \<open>Python helpers\<close>

definition OLLAMA_MODEL :: string where
  "OLLAMA_MODEL = ''phi3''"

definition required_columns :: "string set" where
  "required_columns = {''date'', ''product'', ''quantity'', ''total''}"

text \<open>\<^verbatim>\<open>d[k]\<close> on a dictionary raises \<^verbatim>\<open>KeyError\<close> on a missing key.\<close>

definition getitem :: "(string \<rightharpoonup> 'v) \<Rightarrow> string \<Rightarrow> py_exn + 'v" where
  "getitem d k = (case d k of None \<Rightarrow> Inl (PyExn ''KeyError'' k) | Some v \<Rightarrow> Inr v)"

text \<open>\<^verbatim>\<open>repr\<close> of a string with no quote, backslash or control character in it, which
  is all the handlers render: the names of the required columns.\<close>

definition repr_str :: "string \<Rightarrow> string" where
  "repr_str s = [CHR 0x27] @ s @ [CHR 0x27]"

fun join :: "string \<Rightarrow> string list \<Rightarrow> string" where
  "join sep [] = []"
| "join sep [x] = x"
| "join sep (x # y # ys) = x @ sep @ join sep (y # ys)"

text \<open>\<^verbatim>\<open>str\<close> of a set of strings, as the f-string \<^verbatim>\<open>{missing}\<close> renders it.\<close>

definition str_set :: "env \<Rightarrow> string set \<Rightarrow> string" where
  "str_set env S =
     (if S = {} then ''set()''
      else ''{'' @ join '', '' (map repr_str (set_iter env S)) @ ''}'')"

text \<open>\<^verbatim>\<open>os.path.exists(CSV_PATH)\<close>.\<close>

definition path_exists :: "world \<Rightarrow> bool" where
  "path_exists s = (csv_file s \<noteq> None)"

text \<open>\<^verbatim>\<open>df.head()\<close>: the first five rows.\<close>

definition head :: "dataframe \<Rightarrow> dataframe" where
  "head df = df\<lparr>df_rows := take 5 (df_rows df)\<rparr>"

text \<open>The status a client sees: 200 for a returned body, the code of an
  \<^verbatim>\<open>HTTPException\<close>, 500 for an exception the handler let escape.\<close>

fun http_status :: "exn + 'a \<Rightarrow> nat" where
  "http_status (Inr _) = 200"
| "http_status (Inl (HTTPException c _)) = c"
| "http_status (Inl (Raised _)) = 500"

section \<open>The dependency check and the backend call\<close>

text \<open>\<^verbatim>\<open>install_missing_dependencies\<close>: when \<^verbatim>\<open>import tabulate\<close> fails it runs pip with
  \<^verbatim>\<open>check=True\<close>; an exception of that run is not caught.\<close>

definition install_missing_dependencies :: "env \<Rightarrow> py_exn + unit" where
  "install_missing_dependencies env =
     (if tabulate_importable env then Inr ()
      else (case pip_install env of None \<Rightarrow> Inr () | Some e \<Rightarrow> Inl e))"

definition generate_request :: "string \<Rightarrow> gen_request" where
  "generate_request p =
     \<lparr>model = OLLAMA_MODEL, prompt = p, options = [(''temperature'', 0)]\<rparr>"

text \<open>\<^verbatim>\<open>get_ollama_response\<close>: one \<^verbatim>\<open>ollama.generate\<close> call, then
  \<^verbatim>\<open>response['response']\<close>; any exception of either becomes the
  \<^verbatim>\<open>HTTPException\<close> with status 500 and a fixed detail.\<close>

definition get_ollama_response :: "env \<Rightarrow> world \<Rightarrow> string \<Rightarrow> (exn + string) \<times> world" where
  "get_ollama_response env s p =
     (let req = generate_request p;
          s' = s\<lparr>generate_calls := generate_calls s @ [req]\<rparr>
      in (case ollama_generate env req of
            Inl e \<Rightarrow> (Inl (HTTPException 500 ''Erro no servidor de modelos''), s')
          | Inr response \<Rightarrow>
              (case getitem response ''response'' of
                 Inl e \<Rightarrow> (Inl (HTTPException 500 ''Erro no servidor de modelos''), s')
               | Inr text \<Rightarrow> (Inr text, s'))))"

section \<open>POST /upload\<close>

text \<open>The body of the handler's \<^verbatim>\<open>try\<close> block.\<close>

definition upload_body :: "env \<Rightarrow> world \<Rightarrow> UploadFile \<Rightarrow> (py_exn + upload_response) \<times> world" where
  "upload_body env s file =
     (case read file of
        Inl e \<Rightarrow> (Inl e, s)
      | Inr contents \<Rightarrow>
     (case decode_utf8 env contents of
        Inl e \<Rightarrow> (Inl e, s)
      | Inr text \<Rightarrow>
     (case read_csv env text of
        Inl e \<Rightarrow> (Inl e, s)
      | Inr df \<Rightarrow>
          (let missing = required_columns - set (df_columns df) in
           if missing \<noteq> {}
           then (Inl (PyExn ''ValueError'' (''Colunas faltando: '' @ str_set env missing)), s)
           else (case disk_write env df of
                   OpenFailed e \<Rightarrow> (Inl e, s)
                 | WriteFailed e n \<Rightarrow>
                     (Inl e, s\<lparr>csv_file := Some (take n (to_csv env df))\<rparr>)
                 | Written \<Rightarrow>
                     (Inr \<lparr>message = ''Arquivo salvo com sucesso'', columns = df_columns df\<rparr>,
                      s\<lparr>csv_file := Some (to_csv env df)\<rparr>))))))"

text \<open>\<^verbatim>\<open>upload_file\<close>: every exception of the body becomes status 400 with
  \<^verbatim>\<open>str(e)\<close> as the detail.\<close>

definition upload_file :: "env \<Rightarrow> world \<Rightarrow> UploadFile \<Rightarrow> (exn + upload_response) \<times> world" where
  "upload_file env s file =
     (case upload_body env s file of
        (Inl e, s') \<Rightarrow> (Inl (HTTPException 400 (exn_str e)), s')
      | (Inr r, s') \<Rightarrow> (Inr r, s'))"

section \<open>POST /ask\<close>

definition not_found_detail :: string where
  "not_found_detail =
     ''Arquivo n'' @ [CHR 0xC3, CHR 0xA3] @ ''o encontrado. Fa'' @ [CHR 0xC3, CHR 0xA7]
       @ ''a upload primeiro.''"

definition exact_values_instruction :: string where
  "exact_values_instruction =
     ''Responda com valores exatos quando poss'' @ [CHR 0xC3, CHR 0xAD] @ ''vel.''"

definition indent :: string where
  "indent = ''        ''"

text \<open>The f-string \<^verbatim>\<open>context\<close>.\<close>

definition context_prompt :: "string \<Rightarrow> string \<Rightarrow> string" where
  "context_prompt data_preview q =
     [CHR 0x0A] @ indent @ ''Analise estes dados de vendas:'' @ [CHR 0x0A]
     @ indent @ data_preview @ [CHR 0x0A]
     @ [CHR 0x0A]
     @ indent @ ''Pergunta: '' @ q @ [CHR 0x0A]
     @ indent @ exact_values_instruction @ [CHR 0x0A]
     @ indent"

text \<open>\<^verbatim>\<open>pd.read_csv(CSV_PATH)\<close>: the file's text, parsed.\<close>

definition read_csv_path :: "env \<Rightarrow> world \<Rightarrow> py_exn + dataframe" where
  "read_csv_path env s =
     (case csv_file s of
        None \<Rightarrow> Inl (PyExn ''FileNotFoundError'' ''sales.csv'')
      | Some text \<Rightarrow> read_csv env text)"

text \<open>The preview: \<^verbatim>\<open>to_markdown\<close>, and \<^verbatim>\<open>to_string\<close> when that raises.\<close>

definition data_preview :: "env \<Rightarrow> dataframe \<Rightarrow> py_exn + string" where
  "data_preview env df =
     (case to_markdown env (head df) of
        Inr p \<Rightarrow> Inr p
      | Inl _ \<Rightarrow> to_string env (head df))"

text \<open>The body of the handler's \<^verbatim>\<open>try\<close> block.\<close>

definition ask_body :: "env \<Rightarrow> world \<Rightarrow> string \<Rightarrow> (exn + ask_response) \<times> world" where
  "ask_body env s q =
     (case read_csv_path env s of
        Inl e \<Rightarrow> (Inl (Raised e), s)
      | Inr df \<Rightarrow>
     (case data_preview env df of
        Inl e \<Rightarrow> (Inl (Raised e), s)
      | Inr p \<Rightarrow>
     (case get_ollama_response env s (context_prompt p q) of
        (Inl e, s') \<Rightarrow> (Inl e, s')
      | (Inr a, s') \<Rightarrow> (Inr \<lparr>question = q, answer = a\<rparr>, s'))))"

text \<open>\<^verbatim>\<open>ask\<close>: the dependency check and the existence check stand before the
  \<^verbatim>\<open>try\<close>; inside it an \<^verbatim>\<open>HTTPException\<close> is raised again as it is and any other
  exception becomes status 500 with a fixed detail.\<close>

definition ask :: "env \<Rightarrow> world \<Rightarrow> string \<Rightarrow> (exn + ask_response) \<times> world" where
  "ask env s q =
     (case install_missing_dependencies env of
        Inl e \<Rightarrow> (Inl (Raised e), s)
      | Inr _ \<Rightarrow>
          if \<not> path_exists s then (Inl (HTTPException 404 not_found_detail), s)
          else (case ask_body env s q of
                  (Inl (HTTPException c d), s') \<Rightarrow> (Inl (HTTPException c d), s')
                | (Inl (Raised e), s') \<Rightarrow>
                    (Inl (HTTPException 500 ''Erro ao processar a pergunta''), s')
                | (Inr r, s') \<Rightarrow> (Inr r, s')))"

section \<open>GET /health\<close>

definition health_detail :: string where
  "health_detail =
     ''Erro na verifica'' @ [CHR 0xC3, CHR 0xA7, CHR 0xC3, CHR 0xA3] @ ''o de sa''
       @ [CHR 0xC3, CHR 0xBA] @ ''de''"

text \<open>The generator \<^verbatim>\<open>any(model['name'] == OLLAMA_MODEL for model in models)\<close>: it
  stops at the first match, and a model without \<^verbatim>\<open>'name'\<close> before that raises.\<close>

fun any_name_is :: "string \<Rightarrow> (string \<rightharpoonup> string) list \<Rightarrow> py_exn + bool" where
  "any_name_is m [] = Inr False"
| "any_name_is m (x # xs) =
     (case getitem x ''name'' of
        Inl e \<Rightarrow> Inl e
      | Inr n \<Rightarrow> if n = m then Inr True else any_name_is m xs)"

text \<open>The inner \<^verbatim>\<open>try\<close> block: the listing, \<^verbatim>\<open>['models']\<close>, and the argument of
  \<^verbatim>\<open>status.update\<close>, which is evaluated before the update happens.\<close>

definition backend_status :: "env \<Rightarrow> py_exn + bool" where
  "backend_status env =
     (case ollama_list env of
        Inl e \<Rightarrow> Inl e
      | Inr response \<Rightarrow>
          (case getitem response ''models'' of
             Inl e \<Rightarrow> Inl e
           | Inr models \<Rightarrow> any_name_is OLLAMA_MODEL models))"

text \<open>The body of the outer \<^verbatim>\<open>try\<close> block; the bare \<^verbatim>\<open>except: pass\<close> keeps the
  status as it was built.\<close>

definition health_body :: "env \<Rightarrow> world \<Rightarrow> py_exn + health_status" where
  "health_body env s =
     (let status = \<lparr>csv_loaded = path_exists s, ollama_running = False,
                     model_available = False\<rparr>
      in (case backend_status env of
            Inl _ \<Rightarrow> Inr status
          | Inr b \<Rightarrow> Inr (status\<lparr>ollama_running := True, model_available := b\<rparr>)))"

definition health_check :: "env \<Rightarrow> world \<Rightarrow> (exn + health_status) \<times> world" where
  "health_check env s =
     (case health_body env s of
        Inl e \<Rightarrow> (Inl (HTTPException 500 health_detail), s)
      | Inr status \<Rightarrow> (Inr status, s))"

section \<open>Concrete scenarios\<close>

text \<open>The scenario of the service's description: a sales table of one row, a parser
  that knows it, a backend that has the model and answers.\<close>

definition sales_csv :: string where
  "sales_csv = ''date,product,quantity,total'' @ [CHR 0x0A] @ ''2024-01-01,Widget,5,50.0''"

definition sales_df :: dataframe where
  "sales_df = \<lparr>df_columns = [''date'', ''product'', ''quantity'', ''total''],
                df_rows = [[''2024-01-01'', ''Widget'', ''5'', ''50.0'']]\<rparr>"

text \<open>A table without the column \<^verbatim>\<open>total\<close>.\<close>

definition no_total_csv :: string where
  "no_total_csv = ''date,product,quantity'' @ [CHR 0x0A] @ ''2024-01-01,Widget,5''"

definition no_total_df :: dataframe where
  "no_total_df = \<lparr>df_columns = [''date'', ''product'', ''quantity''],
                   df_rows = [[''2024-01-01'', ''Widget'', ''5'']]\<rparr>"

text \<open>An older table, with one column more and another row.\<close>

definition old_csv :: string where
  "old_csv = ''date,product,quantity,total,region'' @ [CHR 0x0A] @ ''2023-12-31,Gadget,1,9.5,north''"

definition old_df :: dataframe where
  "old_df = \<lparr>df_columns = [''date'', ''product'', ''quantity'', ''total'', ''region''],
              df_rows = [[''2023-12-31'', ''Gadget'', ''1'', ''9.5'', ''north'']]\<rparr>"

text \<open>A table as lines of text, the cells of a line joined by a separator.\<close>

definition render_rows :: "string \<Rightarrow> dataframe \<Rightarrow> string" where
  "render_rows sep df = join [CHR 0x0A] (map (join sep) (df_columns df # df_rows df))"

text \<open>The surroundings of the scenario: a decoder that refuses the byte \<open>0xFF\<close>, which
  no UTF-8 text contains; a parser that knows the three tables above; a writer of
  comma-separated lines; a disk that takes every write; tabulate installed; a backend
  that lists the model \<^verbatim>\<open>phi3\<close> and answers every prompt with \<^verbatim>\<open>50.0\<close>.\<close>

definition local_env :: env where
  "local_env =
     \<lparr>decode_utf8 = (\<lambda>b. if CHR 0xFF \<in> set b
                          then Inl (PyExn ''UnicodeDecodeError'' ''invalid start byte'')
                          else Inr b),
      read_csv = (\<lambda>t. if t = sales_csv then Inr sales_df
                       else if t = no_total_csv then Inr no_total_df
                       else if t = old_csv then Inr old_df
                       else Inl (PyExn ''ParserError'' ''Error tokenizing data'')),
      to_csv = render_rows '','',
      disk_write = (\<lambda>df. Written),
      set_iter = (\<lambda>S. filter (\<lambda>c. c \<in> S) [''total'', ''date'', ''quantity'', ''product'']),
      tabulate_importable = True,
      pip_install = None,
      to_markdown = (\<lambda>df. Inr (render_rows '' | '' df)),
      to_string = (\<lambda>df. Inr (render_rows ''  '' df)),
      ollama_generate = (\<lambda>r. Inr [''response'' \<mapsto> ''50.0'']),
      ollama_list = Inr [''models'' \<mapsto> [[''name'' \<mapsto> ''phi3'']]]\<rparr>"

text \<open>The same surroundings with a disk that takes no more data: the file is opened and
  emptied, and nothing is written.\<close>

definition full_disk_env :: env where
  "full_disk_env =
     local_env\<lparr>disk_write := (\<lambda>df. WriteFailed (PyExn ''OSError'' ''No space left on device'') 0)\<rparr>"

text \<open>The same surroundings with a disk that is full after ten characters.\<close>

definition short_write_env :: env where
  "short_write_env =
     local_env\<lparr>disk_write := (\<lambda>df. WriteFailed (PyExn ''OSError'' ''No space left on device'') 10)\<rparr>"

text \<open>The same surroundings with a file that may not be opened for writing.\<close>

definition read_only_env :: env where
  "read_only_env =
     local_env\<lparr>disk_write := (\<lambda>df. OpenFailed (PyExn ''PermissionError'' ''Permission denied''))\<rparr>"

text \<open>The same surroundings without tabulate and with a pip that exits with an error.\<close>

definition no_pip_env :: env where
  "no_pip_env =
     local_env\<lparr>tabulate_importable := False,
                pip_install := Some (PyExn ''CalledProcessError'' ''returned non-zero exit status 1'')\<rparr>"

text \<open>The same surroundings with a backend whose listing names its models under
  \<^verbatim>\<open>'model'\<close> and not under \<^verbatim>\<open>'name'\<close>.\<close>

definition unnamed_models :: "string \<rightharpoonup> (string \<rightharpoonup> string) list" where
  "unnamed_models = [''models'' \<mapsto> [[''model'' \<mapsto> ''phi3'']]]"

definition unnamed_env :: env where
  "unnamed_env = local_env\<lparr>ollama_list := Inr unnamed_models\<rparr>"

definition no_file :: world where
  "no_file = \<lparr>csv_file = None, generate_calls = []\<rparr>"

definition sales_file :: world where
  "sales_file = \<lparr>csv_file = Some sales_csv, generate_calls = []\<rparr>"

section \<open>How the handlers unfold\<close>

lemma get_ollama_response_world:
  "snd (get_ollama_response env s p) =
     s\<lparr>generate_calls := generate_calls s @ [generate_request p]\<rparr>"
  by (simp add: get_ollama_response_def Let_def split: sum.splits)

lemma get_ollama_response_result:
  "fst (get_ollama_response env s p) =
     (case ollama_generate env (generate_request p) of
        Inl e \<Rightarrow> Inl (HTTPException 500 ''Erro no servidor de modelos'')
      | Inr response \<Rightarrow>
          (case response ''response'' of
             None \<Rightarrow> Inl (HTTPException 500 ''Erro no servidor de modelos'')
           | Some text \<Rightarrow> Inr text))"
  by (simp add: get_ollama_response_def getitem_def Let_def split: sum.splits option.splits)

lemma get_ollama_response_eq:
  "get_ollama_response env s p =
     (fst (get_ollama_response env s p),
      s\<lparr>generate_calls := generate_calls s @ [generate_request p]\<rparr>)"
  by (metis get_ollama_response_world prod.collapse)

text \<open>The five ways through \<open>ask\<close>.\<close>

lemma ask_install_fails:
  "install_missing_dependencies env = Inl e \<Longrightarrow> ask env s q = (Inl (Raised e), s)"
  by (simp add: ask_def)

lemma ask_no_file:
  "install_missing_dependencies env = Inr u \<Longrightarrow> csv_file s = None \<Longrightarrow>
   ask env s q = (Inl (HTTPException 404 not_found_detail), s)"
  by (simp add: ask_def path_exists_def)

lemma ask_read_fails:
  "install_missing_dependencies env = Inr u \<Longrightarrow> csv_file s = Some t \<Longrightarrow>
   read_csv env t = Inl e \<Longrightarrow>
   ask env s q = (Inl (HTTPException 500 ''Erro ao processar a pergunta''), s)"
  by (simp add: ask_def path_exists_def ask_body_def read_csv_path_def)

lemma ask_preview_fails:
  "install_missing_dependencies env = Inr u \<Longrightarrow> csv_file s = Some t \<Longrightarrow>
   read_csv env t = Inr df \<Longrightarrow> data_preview env df = Inl e \<Longrightarrow>
   ask env s q = (Inl (HTTPException 500 ''Erro ao processar a pergunta''), s)"
  by (simp add: ask_def path_exists_def ask_body_def read_csv_path_def)

lemma ask_backend_called:
  assumes "install_missing_dependencies env = Inr u" "csv_file s = Some t"
    "read_csv env t = Inr df" "data_preview env df = Inr p"
  shows "ask env s q =
    ((case ollama_generate env (generate_request (context_prompt p q)) of
        Inl e \<Rightarrow> Inl (HTTPException 500 ''Erro no servidor de modelos'')
      | Inr response \<Rightarrow>
          (case response ''response'' of
             None \<Rightarrow> Inl (HTTPException 500 ''Erro no servidor de modelos'')
           | Some text \<Rightarrow> Inr \<lparr>question = q, answer = text\<rparr>)),
     s\<lparr>generate_calls := generate_calls s @ [generate_request (context_prompt p q)]\<rparr>)"
proof -
  have "ask_body env s q =
      (case get_ollama_response env s (context_prompt p q) of
        (Inl e, s') \<Rightarrow> (Inl e, s')
      | (Inr a, s') \<Rightarrow> (Inr \<lparr>question = q, answer = a\<rparr>, s'))"
    using assms by (simp add: ask_body_def read_csv_path_def)
  then show ?thesis
    using assms(1,2)
    by (subst (asm) get_ollama_response_eq)
       (simp add: ask_def path_exists_def get_ollama_response_result
             split: sum.splits option.splits)
qed

lemma ask_csv_file: "csv_file (snd (ask env s q)) = csv_file s"
proof (cases "install_missing_dependencies env")
  case (Inl e)
  then show ?thesis by (simp add: ask_install_fails)
next
  case (Inr u)
  show ?thesis
  proof (cases "csv_file s")
    case None
    with Inr show ?thesis by (simp add: ask_no_file)
  next
    case (Some t)
    show ?thesis
    proof (cases "read_csv env t")
      case (Inl e)
      with Inr Some show ?thesis by (simp add: ask_read_fails)
    next
      case df: (Inr df)
      show ?thesis
      proof (cases "data_preview env df")
        case (Inl e)
        with Inr Some df show ?thesis by (simp add: ask_preview_fails)
      next
        case p: (Inr p)
        show ?thesis
          by (simp add: ask_backend_called [OF Inr Some df p] Some)
      qed
    qed
  qed
qed

text \<open>What \<open>ask\<close> returns depends on the world through the file alone.\<close>

lemma ask_result_of_file:
  assumes "csv_file s = csv_file t"
  shows "fst (ask env s q) = fst (ask env t q)"
proof (cases "install_missing_dependencies env")
  case (Inl e)
  then show ?thesis by (simp add: ask_install_fails)
next
  case (Inr u)
  show ?thesis
  proof (cases "csv_file s")
    case None
    with Inr assms show ?thesis by (simp add: ask_no_file)
  next
    case (Some x)
    then have t: "csv_file t = Some x" using assms by simp
    show ?thesis
    proof (cases "read_csv env x")
      case (Inl e)
      with Inr Some t show ?thesis by (simp add: ask_read_fails)
    next
      case df: (Inr df)
      show ?thesis
      proof (cases "data_preview env df")
        case (Inl e)
        with Inr Some t df show ?thesis by (simp add: ask_preview_fails)
      next
        case p: (Inr p)
        show ?thesis
          by (simp add: ask_backend_called [OF Inr Some df p]
                ask_backend_called [OF Inr t df p])
      qed
    qed
  qed
qed

text \<open>The ways through \<open>upload_file\<close>.\<close>

lemma upload_read_fails:
  "read file = Inl e \<Longrightarrow> upload_file env s file = (Inl (HTTPException 400 (exn_str e)), s)"
  by (simp add: upload_file_def upload_body_def)

lemma upload_decode_fails:
  "read file = Inr b \<Longrightarrow> decode_utf8 env b = Inl e \<Longrightarrow>
   upload_file env s file = (Inl (HTTPException 400 (exn_str e)), s)"
  by (simp add: upload_file_def upload_body_def)

lemma upload_parse_fails:
  "read file = Inr b \<Longrightarrow> decode_utf8 env b = Inr tx \<Longrightarrow> read_csv env tx = Inl e \<Longrightarrow>
   upload_file env s file = (Inl (HTTPException 400 (exn_str e)), s)"
  by (simp add: upload_file_def upload_body_def)

lemma upload_columns_missing:
  assumes "read file = Inr b" "decode_utf8 env b = Inr tx" "read_csv env tx = Inr df"
    "\<not> required_columns \<subseteq> set (df_columns df)"
  shows "upload_file env s file =
       (Inl (HTTPException 400
          (''Colunas faltando: '' @ str_set env (required_columns - set (df_columns df)))), s)"
proof -
  have "required_columns - set (df_columns df) \<noteq> {}"
    using assms(4) by blast
  then show ?thesis
    using assms(1-3) by (simp add: upload_file_def upload_body_def)
qed

lemma upload_file_reaches_write:
  assumes "read file = Inr b" "decode_utf8 env b = Inr tx"
    "read_csv env tx = Inr df" "required_columns \<subseteq> set (df_columns df)"
  shows "upload_file env s file =
     (case disk_write env df of
        OpenFailed e \<Rightarrow> (Inl (HTTPException 400 (exn_str e)), s)
      | WriteFailed e n \<Rightarrow>
          (Inl (HTTPException 400 (exn_str e)), s\<lparr>csv_file := Some (take n (to_csv env df))\<rparr>)
      | Written \<Rightarrow>
          (Inr \<lparr>message = ''Arquivo salvo com sucesso'', columns = df_columns df\<rparr>,
           s\<lparr>csv_file := Some (to_csv env df)\<rparr>))"
proof -
  have "required_columns - set (df_columns df) = {}"
    using assms(4) by blast
  then show ?thesis
    using assms(1-3)
    by (simp add: upload_file_def upload_body_def split: write_outcome.splits)
qed

lemma health_check_world: "snd (health_check env s) = s"
  by (simp add: health_check_def split: sum.splits)

section \<open>The scenarios, evaluated\<close>

lemma csv_texts_differ:
  "sales_csv \<noteq> no_total_csv" "sales_csv \<noteq> old_csv" "old_csv \<noteq> no_total_csv"
  by (simp_all add: sales_csv_def no_total_csv_def old_csv_def)

lemma local_env_simps:
  "read_csv local_env sales_csv = Inr sales_df"
  "read_csv local_env no_total_csv = Inr no_total_df"
  "read_csv local_env old_csv = Inr old_df"
  "to_csv local_env sales_df = sales_csv"
  "to_csv local_env old_df = old_csv"
  "disk_write local_env df = Written"
  "tabulate_importable local_env"
  "to_markdown local_env df = Inr (render_rows '' | '' df)"
  "ollama_generate local_env r = Inr [''response'' \<mapsto> ''50.0'']"
  "ollama_list local_env = Inr [''models'' \<mapsto> [[''name'' \<mapsto> ''phi3'']]]"
  by (simp_all add: local_env_def csv_texts_differ csv_texts_differ [symmetric])
     (simp_all add: render_rows_def sales_df_def sales_csv_def old_df_def old_csv_def)

lemma decode_ascii:
  "decode_utf8 local_env sales_csv = Inr sales_csv"
  "decode_utf8 local_env no_total_csv = Inr no_total_csv"
  "decode_utf8 local_env old_csv = Inr old_csv"
  by (simp_all add: local_env_def sales_csv_def no_total_csv_def old_csv_def)

lemma nothing_missing:
  "required_columns - set (df_columns sales_df) = {}"
  "required_columns - set (df_columns old_df) = {}"
  by (auto simp add: required_columns_def sales_df_def old_df_def)

lemma upload_sales:
  "upload_file local_env s (UploadFile (Inr sales_csv)) =
     (Inr \<lparr>message = ''Arquivo salvo com sucesso'',
            columns = [''date'', ''product'', ''quantity'', ''total'']\<rparr>,
      s\<lparr>csv_file := Some sales_csv\<rparr>)"
  by (simp add: upload_file_def upload_body_def local_env_simps decode_ascii nothing_missing)
     (simp add: sales_df_def)

lemma ask_sales:
  "csv_file s = Some sales_csv \<Longrightarrow> ask local_env s q =
     (Inr \<lparr>question = q, answer = ''50.0''\<rparr>,
      s\<lparr>generate_calls := generate_calls s
           @ [generate_request (context_prompt (render_rows '' | '' (head sales_df)) q)]\<rparr>)"
  by (simp add: ask_def install_missing_dependencies_def path_exists_def ask_body_def
       read_csv_path_def data_preview_def get_ollama_response_def getitem_def local_env_simps)

section \<open>Properties of the handlers\<close>

text \<open>
  C1 (as amended). When the uploaded file is read, its bytes decode as UTF-8, the text
  parses as a CSV whose header has all of \<^verbatim>\<open>date\<close>, \<^verbatim>\<open>product\<close>, \<^verbatim>\<open>quantity\<close> and
  \<^verbatim>\<open>total\<close>, and the write of the file at \<^verbatim>\<open>CSV_PATH\<close> does not raise, then
  \<open>upload_file\<close> returns its success body, whose \<open>columns\<close> are the parsed header's
  names in their order, and the file holds the parsed table.
\<close>

theorem upload_file_succeeds:
  assumes "read file = Inr contents" "decode_utf8 env contents = Inr text"
    "read_csv env text = Inr df" "required_columns \<subseteq> set (df_columns df)"
    "disk_write env df = Written"
  shows "upload_file env s file =
     (Inr \<lparr>message = ''Arquivo salvo com sucesso'', columns = df_columns df\<rparr>,
      s\<lparr>csv_file := Some (to_csv env df)\<rparr>)"
  using assms(5) by (simp add: upload_file_reaches_write [OF assms(1-4)])

lemma sales_has_required: "required_columns \<subseteq> set (df_columns sales_df)"
  using nothing_missing(1) by blast

theorem upload_file_succeeds_witness:
  "read (UploadFile (Inr sales_csv)) = Inr sales_csv \<and>
   decode_utf8 local_env sales_csv = Inr sales_csv \<and>
   read_csv local_env sales_csv = Inr sales_df \<and>
   required_columns \<subseteq> set (df_columns sales_df) \<and>
   disk_write local_env sales_df = Written \<and>
   upload_file local_env no_file (UploadFile (Inr sales_csv)) =
     (Inr \<lparr>message = ''Arquivo salvo com sucesso'',
            columns = [''date'', ''product'', ''quantity'', ''total'']\<rparr>,
      \<lparr>csv_file = Some sales_csv, generate_calls = []\<rparr>)"
proof -
  have r: "read (UploadFile (Inr sales_csv)) = Inr sales_csv" by simp
  note h = r decode_ascii(1) local_env_simps(1) sales_has_required local_env_simps(6)
  have "df_columns sales_df = [''date'', ''product'', ''quantity'', ''total'']"
    by (simp add: sales_df_def)
  then show ?thesis
    using upload_file_succeeds [OF h, of no_file] h
    by (simp add: local_env_simps no_file_def)
qed

lemma full_disk_env_simps:
  "decode_utf8 full_disk_env = decode_utf8 local_env"
  "read_csv full_disk_env = read_csv local_env"
  "disk_write full_disk_env df = WriteFailed (PyExn ''OSError'' ''No space left on device'') 0"
  by (simp_all add: full_disk_env_def)

text \<open>
  C1 as stated fails where the write raises: the same file, decoded and parsed with all
  four columns, on a full disk gives status 400 (and leaves an empty file).
\<close>

theorem upload_file_full_disk:
  "read (UploadFile (Inr sales_csv)) = Inr sales_csv \<and>
   decode_utf8 full_disk_env sales_csv = Inr sales_csv \<and>
   read_csv full_disk_env sales_csv = Inr sales_df \<and>
   required_columns \<subseteq> set (df_columns sales_df) \<and>
   upload_file full_disk_env no_file (UploadFile (Inr sales_csv)) =
     (Inl (HTTPException 400 ''No space left on device''), no_file\<lparr>csv_file := Some []\<rparr>)"
proof -
  have r: "read (UploadFile (Inr sales_csv)) = Inr sales_csv" by simp
  have d: "decode_utf8 full_disk_env sales_csv = Inr sales_csv"
    by (simp add: full_disk_env_simps decode_ascii)
  have p: "read_csv full_disk_env sales_csv = Inr sales_df"
    by (simp add: full_disk_env_simps local_env_simps)
  show ?thesis
    using r d p sales_has_required
    by (simp add: upload_file_reaches_write [OF r d p sales_has_required] full_disk_env_simps)
qed

lemma sublist_wrap:
  assumes "sublist xs ys"
  shows "sublist xs (a @ ys @ b)"
proof -
  from assms obtain ps ss where "ys = ps @ xs @ ss"
    by (auto simp: sublist_def)
  then have "a @ ys @ b = (a @ ps) @ xs @ (ss @ b)" by simp
  then show ?thesis
    by (metis sublist_appendI)
qed

lemma sublist_join: "x \<in> set xs \<Longrightarrow> sublist x (join sep xs)"
proof (induction sep xs rule: join.induct)
  case (1 sep)
  then show ?case by simp
next
  case (2 sep x')
  then show ?case by simp
next
  case (3 sep x' y ys)
  show ?case
  proof (cases "x = x'")
    case True
    then show ?thesis by simp
  next
    case False
    with 3 have "sublist x (join sep (y # ys))" by simp
    then have "sublist x ((x' @ sep) @ join sep (y # ys) @ [])"
      by (rule sublist_wrap)
    then show ?thesis by simp
  qed
qed

lemma sublist_repr_str: "sublist c (repr_str c)"
  unfolding repr_str_def by (rule sublist_appendI)

lemma str_set_names:
  assumes "c \<in> S" "set (set_iter env S) = S"
  shows "sublist c (pre @ str_set env S)"
proof -
  have "repr_str c \<in> set (map repr_str (set_iter env S))"
    using assms by simp
  then have "sublist (repr_str c) (join '', '' (map repr_str (set_iter env S)))"
    by (rule sublist_join)
  then have "sublist ([] @ c @ []) (join '', '' (map repr_str (set_iter env S)))"
    using sublist_repr_str [of c] sublist_order.order_trans by fastforce
  then have "sublist c (join '', '' (map repr_str (set_iter env S)))"
    by simp
  then have "sublist c ((pre @ ''{'') @ join '', '' (map repr_str (set_iter env S)) @ ''}'')"
    by (rule sublist_wrap)
  moreover have "S \<noteq> {}" using assms(1) by blast
  ultimately show ?thesis
    by (simp add: str_set_def)
qed

text \<open>
  C2. When the parsed header lacks one of the required columns, \<open>upload_file\<close> fails
  with status 400, the detail names every missing column, and the world is returned as
  it was: the file at \<^verbatim>\<open>CSV_PATH\<close> is not written. (Python enumerates the set of
  missing columns in some order, \<open>set_iter\<close>; the enumeration has the set's elements.)
\<close>

theorem upload_file_missing_columns:
  assumes "read file = Inr contents" "decode_utf8 env contents = Inr text"
    "read_csv env text = Inr df"
    "\<not> required_columns \<subseteq> set (df_columns df)"
    "set (set_iter env (required_columns - set (df_columns df)))
       = required_columns - set (df_columns df)"
  shows "upload_file env s file =
       (Inl (HTTPException 400
          (''Colunas faltando: '' @ str_set env (required_columns - set (df_columns df)))), s)
     \<and> (\<forall>c \<in> required_columns - set (df_columns df).
          sublist c (''Colunas faltando: ''
                      @ str_set env (required_columns - set (df_columns df))))"
proof -
  have "required_columns - set (df_columns df) \<noteq> {}"
    using assms(4) by blast
  then have "upload_file env s file =
       (Inl (HTTPException 400
          (''Colunas faltando: '' @ str_set env (required_columns - set (df_columns df)))), s)"
    using assms(1-3) by (simp add: upload_file_def upload_body_def)
  moreover have "sublist c (''Colunas faltando: ''
                      @ str_set env (required_columns - set (df_columns df)))"
    if "c \<in> required_columns - set (df_columns df)" for c
    using that assms(5) by (rule str_set_names)
  ultimately show ?thesis by blast
qed

lemma no_total_missing: "required_columns - set (df_columns no_total_df) = {''total''}"
  by (auto simp add: required_columns_def no_total_df_def)

theorem upload_file_missing_columns_witness:
  "read (UploadFile (Inr no_total_csv)) = Inr no_total_csv \<and>
   decode_utf8 local_env no_total_csv = Inr no_total_csv \<and>
   read_csv local_env no_total_csv = Inr no_total_df \<and>
   \<not> required_columns \<subseteq> set (df_columns no_total_df) \<and>
   set (set_iter local_env (required_columns - set (df_columns no_total_df)))
     = required_columns - set (df_columns no_total_df) \<and>
   required_columns - set (df_columns no_total_df) = {''total''} \<and>
   upload_file local_env sales_file (UploadFile (Inr no_total_csv)) =
     (Inl (HTTPException 400 (''Colunas faltando: {'' @ [CHR 0x27] @ ''total'' @ [CHR 0x27] @ ''}'')),
      sales_file) \<and>
   sublist ''total'' (''Colunas faltando: {'' @ [CHR 0x27] @ ''total'' @ [CHR 0x27] @ ''}'')"
proof -
  have r: "read (UploadFile (Inr no_total_csv)) = Inr no_total_csv" by simp
  have m: "\<not> required_columns \<subseteq> set (df_columns no_total_df)"
    using no_total_missing by blast
  have i: "set_iter local_env {''total''} = [''total'']"
    by (simp add: local_env_def)
  have o: "set (set_iter local_env (required_columns - set (df_columns no_total_df)))
     = required_columns - set (df_columns no_total_df)"
    by (simp add: no_total_missing i)
  have st: "str_set local_env {''total''} = ''{'' @ [CHR 0x27] @ ''total'' @ [CHR 0x27] @ ''}''"
    by (simp add: str_set_def i repr_str_def)
  show ?thesis
    using upload_file_missing_columns [OF r decode_ascii(2) local_env_simps(2) m o, of sales_file]
      r m o
    by (simp add: no_total_missing st decode_ascii local_env_simps)
qed

text \<open>
  C3 (as amended). When there is no file at \<^verbatim>\<open>CSV_PATH\<close>, \<open>ask\<close> returns the world as
  it was, so \<^verbatim>\<open>ollama.generate\<close> is not called, whatever the question; and when the
  dependency check returns (tabulate is importable, or pip installs it), \<open>ask\<close> fails
  with status 404.
\<close>

theorem ask_without_file:
  assumes "csv_file s = None"
  shows "snd (ask env s q) = s \<and>
         generate_calls (snd (ask env s q)) = generate_calls s \<and>
         (install_missing_dependencies env = Inr () \<longrightarrow>
            ask env s q = (Inl (HTTPException 404 not_found_detail), s) \<and>
            http_status (fst (ask env s q)) = 404)"
proof (cases "install_missing_dependencies env")
  case (Inl e)
  then show ?thesis by (simp add: ask_install_fails)
next
  case (Inr u)
  with assms show ?thesis by (simp add: ask_no_file)
qed

theorem ask_without_file_witness:
  "csv_file no_file = None \<and>
   install_missing_dependencies local_env = Inr () \<and>
   ask local_env no_file ''What is the total?'' =
     (Inl (HTTPException 404 not_found_detail), no_file) \<and>
   generate_calls (snd (ask local_env no_file ''What is the total?'')) = []"
proof -
  have f: "csv_file no_file = None" by (simp add: no_file_def)
  have i: "install_missing_dependencies local_env = Inr ()"
    by (simp add: install_missing_dependencies_def local_env_simps)
  have g: "generate_calls no_file = []" by (simp add: no_file_def)
  show ?thesis
    using ask_without_file [OF f, of local_env "''What is the total?''"] f i g
    by simp
qed

lemma no_pip_env_install:
  "install_missing_dependencies no_pip_env =
     Inl (PyExn ''CalledProcessError'' ''returned non-zero exit status 1'')"
  by (simp add: install_missing_dependencies_def no_pip_env_def)

text \<open>
  C3 as stated fails where tabulate is missing and pip exits with an error: the
  exception of \<^verbatim>\<open>install_missing_dependencies\<close> leaves \<open>ask\<close> before the file is
  looked for, and the client sees status 500, not 404.
\<close>

theorem ask_without_file_pip_fails:
  "csv_file no_file = None \<and>
   ask no_pip_env no_file ''What is the total?'' =
     (Inl (Raised (PyExn ''CalledProcessError'' ''returned non-zero exit status 1'')), no_file) \<and>
   http_status (fst (ask no_pip_env no_file ''What is the total?'')) = 500"
  by (simp add: ask_install_fails [OF no_pip_env_install] no_file_def)

lemma upload_file_detail:
  "fst (upload_file env s file) = Inl x \<Longrightarrow>
     \<exists>e. fst (upload_body env s file) = Inl e \<and> x = HTTPException 400 (exn_str e)"
  by (cases "upload_body env s file") (auto simp: upload_file_def split: sum.splits)

lemma ask_http_details:
  assumes "fst (ask env s q) = Inl (HTTPException c d)"
  shows "(c = 404 \<and> d = not_found_detail) \<or>
         (c = 500 \<and> (d = ''Erro no servidor de modelos'' \<or> d = ''Erro ao processar a pergunta''))"
proof (cases "install_missing_dependencies env")
  case (Inl e)
  with assms show ?thesis by (simp add: ask_install_fails)
next
  case (Inr u)
  show ?thesis
  proof (cases "csv_file s")
    case None
    with Inr assms show ?thesis by (simp add: ask_no_file)
  next
    case (Some t)
    show ?thesis
    proof (cases "read_csv env t")
      case (Inl e)
      with Inr Some assms show ?thesis by (simp add: ask_read_fails)
    next
      case df: (Inr df)
      show ?thesis
      proof (cases "data_preview env df")
        case (Inl e)
        with Inr Some df assms show ?thesis by (simp add: ask_preview_fails)
      next
        case p: (Inr p)
        from assms show ?thesis
          by (simp add: ask_backend_called [OF Inr Some df p]
                split: sum.splits option.splits)
      qed
    qed
  qed
qed

lemma upload_body_detail:
  "fst (upload_body env s file) = Inl e \<Longrightarrow>
     fst (upload_file env s file) = Inl (HTTPException 400 (exn_str e))"
  by (cases "upload_body env s file") (simp add: upload_file_def)

lemma upload_open_fails:
  assumes "read file = Inr b" "decode_utf8 env b = Inr tx" "read_csv env tx = Inr df"
    "required_columns \<subseteq> set (df_columns df)" "disk_write env df = OpenFailed e"
  shows "upload_file env s file = (Inl (HTTPException 400 (exn_str e)), s)"
  using assms(5) by (simp add: upload_file_reaches_write [OF assms(1-4)])

lemma upload_write_fails:
  assumes "read file = Inr b" "decode_utf8 env b = Inr tx" "read_csv env tx = Inr df"
    "required_columns \<subseteq> set (df_columns df)" "disk_write env df = WriteFailed e n"
  shows "upload_file env s file =
     (Inl (HTTPException 400 (exn_str e)), s\<lparr>csv_file := Some (take n (to_csv env df))\<rparr>)"
  using assms(5) by (simp add: upload_file_reaches_write [OF assms(1-4)])

lemma ask_backend_fails:
  assumes "install_missing_dependencies env = Inr u" "csv_file s = Some t"
    "read_csv env t = Inr df" "data_preview env df = Inr p"
    "ollama_generate env (generate_request (context_prompt p q)) = Inl e"
  shows "fst (ask env s q) = Inl (HTTPException 500 ''Erro no servidor de modelos'')"
  using assms(5) by (simp add: ask_backend_called [OF assms(1-4)])

lemma health_check_returns: "\<exists>st. health_check env s = (Inr st, s)"
  by (simp add: health_check_def health_body_def Let_def split: sum.splits)

text \<open>
  C4 (as amended). \<open>upload_file\<close> gives the text of whatever exception its body raised
  as the detail of its status 400: the missing-column message, and equally the message
  of a read, decode, parse or write error, each stated for itself below. An \<^verbatim>\<open>HTTPException\<close> of \<open>ask\<close> carries one
  of three fixed details, none built from the text of an internal exception: a table
  that cannot be read gives the processing detail, a backend call that raises gives the
  model-server detail. \<open>health_check\<close> never fails.
\<close>

theorem error_details:
  "(\<forall>x. fst (upload_file env s file) = Inl x \<longrightarrow>
      (\<exists>e. fst (upload_body env s file) = Inl e \<and> x = HTTPException 400 (exn_str e))) \<and>
   (\<forall>e. fst (upload_body env s file) = Inl e \<longrightarrow>
      fst (upload_file env s file) = Inl (HTTPException 400 (exn_str e))) \<and>
   (\<forall>e. read file = Inl e \<longrightarrow>
      fst (upload_file env s file) = Inl (HTTPException 400 (exn_str e))) \<and>
   (\<forall>b e. read file = Inr b \<and> decode_utf8 env b = Inl e \<longrightarrow>
      fst (upload_file env s file) = Inl (HTTPException 400 (exn_str e))) \<and>
   (\<forall>b tx e. read file = Inr b \<and> decode_utf8 env b = Inr tx \<and> read_csv env tx = Inl e \<longrightarrow>
      fst (upload_file env s file) = Inl (HTTPException 400 (exn_str e))) \<and>
   (\<forall>b tx df. read file = Inr b \<and> decode_utf8 env b = Inr tx \<and> read_csv env tx = Inr df \<and>
        \<not> required_columns \<subseteq> set (df_columns df) \<longrightarrow>
      fst (upload_file env s file) =
        Inl (HTTPException 400
          (''Colunas faltando: '' @ str_set env (required_columns - set (df_columns df))))) \<and>
   (\<forall>b tx df e. read file = Inr b \<and> decode_utf8 env b = Inr tx \<and> read_csv env tx = Inr df \<and>
        required_columns \<subseteq> set (df_columns df) \<and> disk_write env df = OpenFailed e \<longrightarrow>
      fst (upload_file env s file) = Inl (HTTPException 400 (exn_str e))) \<and>
   (\<forall>b tx df e n. read file = Inr b \<and> decode_utf8 env b = Inr tx \<and> read_csv env tx = Inr df \<and>
        required_columns \<subseteq> set (df_columns df) \<and> disk_write env df = WriteFailed e n \<longrightarrow>
      fst (upload_file env s file) = Inl (HTTPException 400 (exn_str e))) \<and>
   (\<forall>c d. fst (ask env s q) = Inl (HTTPException c d) \<longrightarrow>
      (c = 404 \<and> d = not_found_detail) \<or>
      (c = 500 \<and> (d = ''Erro no servidor de modelos'' \<or> d = ''Erro ao processar a pergunta''))) \<and>
   (\<forall>u t e. install_missing_dependencies env = Inr u \<and> csv_file s = Some t \<and>
        read_csv env t = Inl e \<longrightarrow>
      fst (ask env s q) = Inl (HTTPException 500 ''Erro ao processar a pergunta'')) \<and>
   (\<forall>u t df e. install_missing_dependencies env = Inr u \<and> csv_file s = Some t \<and>
        read_csv env t = Inr df \<and> data_preview env df = Inl e \<longrightarrow>
      fst (ask env s q) = Inl (HTTPException 500 ''Erro ao processar a pergunta'')) \<and>
   (\<forall>u t df p e. install_missing_dependencies env = Inr u \<and> csv_file s = Some t \<and>
        read_csv env t = Inr df \<and> data_preview env df = Inr p \<and>
        ollama_generate env (generate_request (context_prompt p q)) = Inl e \<longrightarrow>
      fst (ask env s q) = Inl (HTTPException 500 ''Erro no servidor de modelos'')) \<and>
   (\<forall>x. fst (health_check env s) \<noteq> Inl x)"
proof -
  have surf: "\<forall>x. fst (upload_file env s file) = Inl x \<longrightarrow>
      (\<exists>e. fst (upload_body env s file) = Inl e \<and> x = HTTPException 400 (exn_str e))"
    using upload_file_detail by blast
  have body: "\<forall>e. fst (upload_body env s file) = Inl e \<longrightarrow>
      fst (upload_file env s file) = Inl (HTTPException 400 (exn_str e))"
    using upload_body_detail by blast
  have rd: "\<forall>e. read file = Inl e \<longrightarrow>
      fst (upload_file env s file) = Inl (HTTPException 400 (exn_str e))"
    by (simp add: upload_read_fails)
  have dc: "\<forall>b e. read file = Inr b \<and> decode_utf8 env b = Inl e \<longrightarrow>
      fst (upload_file env s file) = Inl (HTTPException 400 (exn_str e))"
    by (simp add: upload_decode_fails)
  have ps: "fst (upload_file env s file) = Inl (HTTPException 400 (exn_str e))"
    if "read file = Inr b \<and> decode_utf8 env b = Inr tx \<and> read_csv env tx = Inl e" for b tx e
    using that by (simp add: upload_parse_fails [of "file" b env tx e s])
  have ms: "fst (upload_file env s file) =
        Inl (HTTPException 400
          (''Colunas faltando: '' @ str_set env (required_columns - set (df_columns df))))"
    if "read file = Inr b \<and> decode_utf8 env b = Inr tx \<and> read_csv env tx = Inr df \<and>
        \<not> required_columns \<subseteq> set (df_columns df)" for b tx df
    using that by (simp add: upload_columns_missing [of "file" b env tx df s])
  have op: "fst (upload_file env s file) = Inl (HTTPException 400 (exn_str e))"
    if "read file = Inr b \<and> decode_utf8 env b = Inr tx \<and> read_csv env tx = Inr df \<and>
        required_columns \<subseteq> set (df_columns df) \<and> disk_write env df = OpenFailed e"
    for b tx df e
    using that by (simp add: upload_open_fails [of "file" b env tx df e s])
  have wr: "fst (upload_file env s file) = Inl (HTTPException 400 (exn_str e))"
    if "read file = Inr b \<and> decode_utf8 env b = Inr tx \<and> read_csv env tx = Inr df \<and>
        required_columns \<subseteq> set (df_columns df) \<and> disk_write env df = WriteFailed e n"
    for b tx df e n
    using that by (simp add: upload_write_fails [of "file" b env tx df e n s])
  have details: "\<forall>c d. fst (ask env s q) = Inl (HTTPException c d) \<longrightarrow>
      (c = 404 \<and> d = not_found_detail) \<or>
      (c = 500 \<and> (d = ''Erro no servidor de modelos'' \<or> d = ''Erro ao processar a pergunta''))"
    using ask_http_details by blast
  have r: "fst (ask env s q) = Inl (HTTPException 500 ''Erro ao processar a pergunta'')"
    if "install_missing_dependencies env = Inr u \<and> csv_file s = Some t \<and>
        read_csv env t = Inl e" for u t e
    using that by (simp add: ask_read_fails)
  have pv: "fst (ask env s q) = Inl (HTTPException 500 ''Erro ao processar a pergunta'')"
    if "install_missing_dependencies env = Inr u \<and> csv_file s = Some t \<and>
        read_csv env t = Inr df \<and> data_preview env df = Inl e" for u t df e
    using that by (simp add: ask_preview_fails [of env u s t df e q])
  have bk: "fst (ask env s q) = Inl (HTTPException 500 ''Erro no servidor de modelos'')"
    if "install_missing_dependencies env = Inr u \<and> csv_file s = Some t \<and>
        read_csv env t = Inr df \<and> data_preview env df = Inr p \<and>
        ollama_generate env (generate_request (context_prompt p q)) = Inl e" for u t df p e
    using that ask_backend_fails by blast
  have h: "\<forall>x. fst (health_check env s) \<noteq> Inl x"
    using health_check_returns [of env s] by auto
  have upload: "(\<forall>b tx e. read file = Inr b \<and> decode_utf8 env b = Inr tx \<and> read_csv env tx = Inl e \<longrightarrow>
      fst (upload_file env s file) = Inl (HTTPException 400 (exn_str e))) \<and>
   (\<forall>b tx df. read file = Inr b \<and> decode_utf8 env b = Inr tx \<and> read_csv env tx = Inr df \<and>
        \<not> required_columns \<subseteq> set (df_columns df) \<longrightarrow>
      fst (upload_file env s file) =
        Inl (HTTPException 400
          (''Colunas faltando: '' @ str_set env (required_columns - set (df_columns df))))) \<and>
   (\<forall>b tx df e. read file = Inr b \<and> decode_utf8 env b = Inr tx \<and> read_csv env tx = Inr df \<and>
        required_columns \<subseteq> set (df_columns df) \<and> disk_write env df = OpenFailed e \<longrightarrow>
      fst (upload_file env s file) = Inl (HTTPException 400 (exn_str e))) \<and>
   (\<forall>b tx df e n. read file = Inr b \<and> decode_utf8 env b = Inr tx \<and> read_csv env tx = Inr df \<and>
        required_columns \<subseteq> set (df_columns df) \<and> disk_write env df = WriteFailed e n \<longrightarrow>
      fst (upload_file env s file) = Inl (HTTPException 400 (exn_str e)))"
    using ps ms op wr by blast
  have query: "(\<forall>u t e. install_missing_dependencies env = Inr u \<and> csv_file s = Some t \<and>
        read_csv env t = Inl e \<longrightarrow>
      fst (ask env s q) = Inl (HTTPException 500 ''Erro ao processar a pergunta'')) \<and>
   (\<forall>u t df e. install_missing_dependencies env = Inr u \<and> csv_file s = Some t \<and>
        read_csv env t = Inr df \<and> data_preview env df = Inl e \<longrightarrow>
      fst (ask env s q) = Inl (HTTPException 500 ''Erro ao processar a pergunta'')) \<and>
   (\<forall>u t df p e. install_missing_dependencies env = Inr u \<and> csv_file s = Some t \<and>
        read_csv env t = Inr df \<and> data_preview env df = Inr p \<and>
        ollama_generate env (generate_request (context_prompt p q)) = Inl e \<longrightarrow>
      fst (ask env s q) = Inl (HTTPException 500 ''Erro no servidor de modelos''))"
    using r pv bk by blast
  from surf body rd dc upload details query h show ?thesis
    by (intro conjI) (elim conjE; assumption)+
qed

lemma undecodable: "decode_utf8 local_env [CHR 0xFF] = Inl (PyExn ''UnicodeDecodeError'' ''invalid start byte'')"
  by (simp add: local_env_def)

lemma upload_undecodable:
  "upload_body local_env s (UploadFile (Inr [CHR 0xFF])) =
     (Inl (PyExn ''UnicodeDecodeError'' ''invalid start byte''), s)"
  "upload_file local_env s (UploadFile (Inr [CHR 0xFF])) =
     (Inl (HTTPException 400 ''invalid start byte''), s)"
  by (simp_all add: upload_file_def upload_body_def undecodable)

theorem error_details_witness:
  "fst (upload_file local_env no_file (UploadFile (Inr [CHR 0xFF]))) =
     Inl (HTTPException 400 ''invalid start byte'') \<and>
   fst (upload_body local_env no_file (UploadFile (Inr [CHR 0xFF]))) =
     Inl (PyExn ''UnicodeDecodeError'' ''invalid start byte'') \<and>
   fst (ask local_env no_file ''What is the total?'') = Inl (HTTPException 404 not_found_detail)"
proof -
  have i: "install_missing_dependencies local_env = Inr ()"
    by (simp add: install_missing_dependencies_def local_env_simps)
  have f: "csv_file no_file = None" by (simp add: no_file_def)
  show ?thesis
    using error_details [of local_env no_file "UploadFile (Inr [CHR 0xFF])" "''What is the total?''"]
    by (simp add: upload_undecodable ask_no_file [OF i f])
qed

text \<open>
  C4 as stated fails on \<open>upload_file\<close>: bytes that are not UTF-8 are no validation
  error, and the detail the client gets is the decoder's own message.
\<close>

theorem upload_decode_error_surfaces:
  "read (UploadFile (Inr [CHR 0xFF])) = Inr [CHR 0xFF] \<and>
   decode_utf8 local_env [CHR 0xFF] = Inl (PyExn ''UnicodeDecodeError'' ''invalid start byte'') \<and>
   upload_file local_env no_file (UploadFile (Inr [CHR 0xFF])) =
     (Inl (HTTPException 400 (exn_str (PyExn ''UnicodeDecodeError'' ''invalid start byte''))), no_file)"
  by (simp add: upload_undecodable undecodable)

lemma upload_file_success_parsed:
  assumes "upload_file env s file = (Inr r, s')"
  shows "\<exists>contents text df. read file = Inr contents \<and> decode_utf8 env contents = Inr text \<and>
          read_csv env text = Inr df \<and> required_columns \<subseteq> set (df_columns df) \<and>
          disk_write env df = Written \<and> columns r = df_columns df \<and>
          s' = s\<lparr>csv_file := Some (to_csv env df)\<rparr>"
proof (cases "read file")
  case (Inl e)
  with assms show ?thesis by (simp add: upload_file_def upload_body_def)
next
  case c: (Inr b)
  show ?thesis
  proof (cases "decode_utf8 env b")
    case (Inl e)
    with assms c show ?thesis by (simp add: upload_file_def upload_body_def)
  next
    case t: (Inr tx)
    show ?thesis
    proof (cases "read_csv env tx")
      case (Inl e)
      with assms c t show ?thesis by (simp add: upload_file_def upload_body_def)
    next
      case df: (Inr df)
      show ?thesis
      proof (cases "required_columns \<subseteq> set (df_columns df)")
        case False
        then have "required_columns - set (df_columns df) \<noteq> {}" by blast
        with assms c t df show ?thesis by (simp add: upload_file_def upload_body_def)
      next
        case True
        from assms show ?thesis
          unfolding upload_file_reaches_write [OF c t df True]
          using c t df True by (auto split: write_outcome.splits)
      qed
    qed
  qed
qed

text \<open>
  C5. After two uploads that both succeed, the file at \<^verbatim>\<open>CSV_PATH\<close> holds the table
  parsed from the second upload and nothing else: it is the file that the second upload
  alone leaves on an empty disk, and every later \<open>ask\<close>, with any libraries and any
  question, returns what it returns after that second upload alone.
\<close>

theorem second_upload_replaces_first:
  assumes "upload_file env1 s0 file1 = (Inr r1, s1)"
      and "upload_file env2 s1 file2 = (Inr r2, s2)"
  shows "\<exists>contents text df.
           read file2 = Inr contents \<and> decode_utf8 env2 contents = Inr text \<and>
           read_csv env2 text = Inr df \<and>
           csv_file s2 = Some (to_csv env2 df) \<and>
           upload_file env2 no_file file2 = (Inr r2, no_file\<lparr>csv_file := Some (to_csv env2 df)\<rparr>) \<and>
           (\<forall>env3 q. fst (ask env3 s2 q)
                      = fst (ask env3 (snd (upload_file env2 no_file file2)) q))"
proof -
  from upload_file_success_parsed [OF assms(2)]
  obtain b tx df where
    p: "read file2 = Inr b" "decode_utf8 env2 b = Inr tx"
       "read_csv env2 tx = Inr df" "required_columns \<subseteq> set (df_columns df)"
       "disk_write env2 df = Written"
    and r: "columns r2 = df_columns df"
    and s2: "s2 = s1\<lparr>csv_file := Some (to_csv env2 df)\<rparr>"
    by blast
  have u: "upload_file env2 s file2 =
      (Inr \<lparr>message = ''Arquivo salvo com sucesso'', columns = df_columns df\<rparr>,
       s\<lparr>csv_file := Some (to_csv env2 df)\<rparr>)" for s
    using p(5) by (simp add: upload_file_reaches_write [OF p(1-4)])
  from u [of s1] assms(2)
  have r2: "r2 = \<lparr>message = ''Arquivo salvo com sucesso'', columns = df_columns df\<rparr>"
    by simp
  have f: "csv_file s2 = Some (to_csv env2 df)" using s2 by simp
  have a: "fst (ask env3 s2 q) = fst (ask env3 (snd (upload_file env2 no_file file2)) q)"
    for env3 q
    by (rule ask_result_of_file) (simp add: u f)
  show ?thesis
    using p(1-3) f a u [of no_file] r2 by blast
qed

lemma upload_old:
  "upload_file local_env s (UploadFile (Inr old_csv)) =
     (Inr \<lparr>message = ''Arquivo salvo com sucesso'',
            columns = [''date'', ''product'', ''quantity'', ''total'', ''region'']\<rparr>,
      s\<lparr>csv_file := Some old_csv\<rparr>)"
  by (simp add: upload_file_def upload_body_def local_env_simps decode_ascii nothing_missing)
     (simp add: old_df_def)

theorem second_upload_replaces_first_witness:
  "upload_file local_env no_file (UploadFile (Inr old_csv)) =
     (Inr \<lparr>message = ''Arquivo salvo com sucesso'',
            columns = [''date'', ''product'', ''quantity'', ''total'', ''region'']\<rparr>,
      \<lparr>csv_file = Some old_csv, generate_calls = []\<rparr>) \<and>
   upload_file local_env \<lparr>csv_file = Some old_csv, generate_calls = []\<rparr>
       (UploadFile (Inr sales_csv)) =
     (Inr \<lparr>message = ''Arquivo salvo com sucesso'',
            columns = [''date'', ''product'', ''quantity'', ''total'']\<rparr>,
      \<lparr>csv_file = Some sales_csv, generate_calls = []\<rparr>) \<and>
   csv_file \<lparr>csv_file = Some sales_csv, generate_calls = []\<rparr> = Some (to_csv local_env sales_df) \<and>
   fst (ask local_env \<lparr>csv_file = Some sales_csv, generate_calls = []\<rparr> ''What is the total?'')
     = fst (ask local_env (snd (upload_file local_env no_file (UploadFile (Inr sales_csv))))
              ''What is the total?'')"
proof -
  have u1: "upload_file local_env no_file (UploadFile (Inr old_csv)) =
     (Inr \<lparr>message = ''Arquivo salvo com sucesso'',
            columns = [''date'', ''product'', ''quantity'', ''total'', ''region'']\<rparr>,
      \<lparr>csv_file = Some old_csv, generate_calls = []\<rparr>)"
    by (simp add: upload_old no_file_def)
  have u2: "upload_file local_env \<lparr>csv_file = Some old_csv, generate_calls = []\<rparr>
       (UploadFile (Inr sales_csv)) =
     (Inr \<lparr>message = ''Arquivo salvo com sucesso'',
            columns = [''date'', ''product'', ''quantity'', ''total'']\<rparr>,
      \<lparr>csv_file = Some sales_csv, generate_calls = []\<rparr>)"
    by (simp add: upload_sales)
  from second_upload_replaces_first [OF u1 u2]
  have "\<forall>env3 q. fst (ask env3 \<lparr>csv_file = Some sales_csv, generate_calls = []\<rparr> q)
          = fst (ask env3 (snd (upload_file local_env no_file (UploadFile (Inr sales_csv)))) q)"
    by blast
  then have "fst (ask local_env \<lparr>csv_file = Some sales_csv, generate_calls = []\<rparr> ''What is the total?'')
     = fst (ask local_env (snd (upload_file local_env no_file (UploadFile (Inr sales_csv))))
              ''What is the total?'')"
    by blast
  with u1 u2 show ?thesis
    by (simp add: local_env_simps)
qed

text \<open>
  C6. Every request \<open>ask\<close> sends to \<^verbatim>\<open>ollama.generate\<close> names the model \<^verbatim>\<open>phi3\<close> and
  has the options \<^verbatim>\<open>{'temperature': 0}\<close>; and with the same file, the same question and
  libraries and a backend that are functions of their arguments, a second \<open>ask\<close>
  right after the first returns the same result, the same answer text when it succeeds.
\<close>

theorem ask_twice_same_answer:
  "fst (ask env (snd (ask env s q)) q) = fst (ask env s q) \<and>
   (\<exists>new. generate_calls (snd (ask env s q)) = generate_calls s @ new \<and>
      (\<forall>r \<in> set new. model r = OLLAMA_MODEL \<and> options r = [(''temperature'', 0)]))"
proof -
  have same: "fst (ask env (snd (ask env s q)) q) = fst (ask env s q)"
    by (rule ask_result_of_file) (rule ask_csv_file)
  have calls: "\<exists>new. generate_calls (snd (ask env s q)) = generate_calls s @ new \<and>
      (\<forall>r \<in> set new. model r = OLLAMA_MODEL \<and> options r = [(''temperature'', 0)])"
  proof (cases "install_missing_dependencies env")
    case (Inl e)
    then show ?thesis by (simp add: ask_install_fails)
  next
    case (Inr u)
    show ?thesis
    proof (cases "csv_file s")
      case None
      with Inr show ?thesis by (simp add: ask_no_file)
    next
      case (Some t)
      show ?thesis
      proof (cases "read_csv env t")
        case (Inl e)
        with Inr Some show ?thesis by (simp add: ask_read_fails)
      next
        case df: (Inr df)
        show ?thesis
        proof (cases "data_preview env df")
          case (Inl e)
          with Inr Some df show ?thesis by (simp add: ask_preview_fails)
        next
          case p: (Inr p)
          show ?thesis
            by (simp add: ask_backend_called [OF Inr Some df p] generate_request_def)
        qed
      qed
    qed
  qed
  from same calls show ?thesis ..
qed

theorem ask_twice_same_answer_witness:
  "fst (ask local_env (snd (ask local_env sales_file ''What is the total?'')) ''What is the total?'')
     = Inr \<lparr>question = ''What is the total?'', answer = ''50.0''\<rparr> \<and>
   fst (ask local_env sales_file ''What is the total?'')
     = Inr \<lparr>question = ''What is the total?'', answer = ''50.0''\<rparr> \<and>
   generate_calls (snd (ask local_env sales_file ''What is the total?'')) =
     [generate_request (context_prompt (render_rows '' | '' (head sales_df)) ''What is the total?'')] \<and>
   options (generate_request (context_prompt (render_rows '' | '' (head sales_df)) ''What is the total?''))
     = [(''temperature'', 0)]"
proof -
  have f: "csv_file sales_file = Some sales_csv" by (simp add: sales_file_def)
  have g: "generate_calls sales_file = []" by (simp add: sales_file_def)
  show ?thesis
    using ask_twice_same_answer [of local_env sales_file "''What is the total?''"]
    by (simp add: ask_sales f g generate_request_def)
qed

lemma any_name_is_named:
  "\<forall>m \<in> set ms. m ''name'' \<noteq> None \<Longrightarrow>
     any_name_is n ms = Inr (\<exists>m \<in> set ms. m ''name'' = Some n)"
  by (induction ms) (auto simp: getitem_def)

lemma any_name_is_found:
  "any_name_is n ms = Inr True \<Longrightarrow> \<exists>m \<in> set ms. m ''name'' = Some n"
  by (induction ms) (auto simp: getitem_def split: option.splits if_splits)

lemma any_name_is_unnamed:
  "\<forall>x \<in> set pre. x ''name'' \<noteq> None \<and> x ''name'' \<noteq> Some n \<Longrightarrow> m ''name'' = None \<Longrightarrow>
     any_name_is n (pre @ m # post) = Inl (PyExn ''KeyError'' ''name'')"
  by (induction pre) (auto simp: getitem_def)

lemma any_name_is_match:
  "\<forall>x \<in> set pre. x ''name'' \<noteq> None \<Longrightarrow> m ''name'' = Some n \<Longrightarrow>
     any_name_is n (pre @ m # post) = Inr True"
  by (induction pre) (auto simp: getitem_def)

lemma backend_status_listing:
  "backend_status env = Inr b \<Longrightarrow>
     \<exists>response ms. ollama_list env = Inr response \<and> response ''models'' = Some ms \<and>
        any_name_is OLLAMA_MODEL ms = Inr b"
  by (auto simp: backend_status_def getitem_def split: sum.splits option.splits)

lemma health_check_eq:
  "health_check env s =
     (Inr \<lparr>csv_loaded = (csv_file s \<noteq> None),
           ollama_running = (\<exists>b. backend_status env = Inr b),
           model_available = (backend_status env = Inr True)\<rparr>, s)"
  by (cases "backend_status env")
     (simp_all add: health_check_def health_body_def path_exists_def)

text \<open>
  C7 (as amended). \<open>health_check\<close> never fails: it returns three booleans and leaves the
  world as it was. \<open>csv_loaded\<close> tells whether the file exists. Every exception of the
  inner block is swallowed into \<open>ollama_running = False\<close> and \<open>model_available = False\<close>:
  a listing call that raises, and equally a listing without \<^verbatim>\<open>'models'\<close> and a
  listing in which a model without \<^verbatim>\<open>'name'\<close> is met before one named \<^verbatim>\<open>phi3\<close>. When
  the call returns a list of models that all carry a \<^verbatim>\<open>'name'\<close>, \<open>ollama_running\<close> is
  true and \<open>model_available\<close> tells whether one of them is named \<^verbatim>\<open>phi3\<close>; both are
  true as well when a model named \<^verbatim>\<open>phi3\<close> is met before any model without a name.
  \<open>ollama_running\<close> is true only when the call returned a list of models,
  \<open>model_available\<close> only when that list has a model named \<^verbatim>\<open>phi3\<close>.
\<close>

theorem health_check_status:
  "\<exists>st. health_check env s = (Inr st, s) \<and>
     csv_loaded st = (csv_file s \<noteq> None) \<and>
     ((\<exists>e. ollama_list env = Inl e) \<longrightarrow> \<not> ollama_running st \<and> \<not> model_available st) \<and>
     (\<forall>response. ollama_list env = Inr response \<and> response ''models'' = None
        \<longrightarrow> \<not> ollama_running st \<and> \<not> model_available st) \<and>
     (\<forall>response ms. ollama_list env = Inr response \<and> response ''models'' = Some ms \<and>
           (\<forall>m \<in> set ms. m ''name'' \<noteq> None)
        \<longrightarrow> ollama_running st \<and>
            model_available st = (\<exists>m \<in> set ms. m ''name'' = Some OLLAMA_MODEL)) \<and>
     (\<forall>response pre m post. ollama_list env = Inr response \<and>
           response ''models'' = Some (pre @ m # post) \<and>
           (\<forall>x \<in> set pre. x ''name'' \<noteq> None \<and> x ''name'' \<noteq> Some OLLAMA_MODEL) \<and>
           m ''name'' = None
        \<longrightarrow> \<not> ollama_running st \<and> \<not> model_available st) \<and>
     (\<forall>response pre m post. ollama_list env = Inr response \<and>
           response ''models'' = Some (pre @ m # post) \<and>
           (\<forall>x \<in> set pre. x ''name'' \<noteq> None) \<and> m ''name'' = Some OLLAMA_MODEL
        \<longrightarrow> ollama_running st \<and> model_available st) \<and>
     (ollama_running st
        \<longrightarrow> (\<exists>response ms. ollama_list env = Inr response \<and> response ''models'' = Some ms)) \<and>
     (model_available st
        \<longrightarrow> ollama_running st \<and>
            (\<exists>response ms. ollama_list env = Inr response \<and> response ''models'' = Some ms \<and>
               (\<exists>m \<in> set ms. m ''name'' = Some OLLAMA_MODEL)))"
proof -
  let ?st = "\<lparr>csv_loaded = (csv_file s \<noteq> None),
           ollama_running = (\<exists>b. backend_status env = Inr b),
           model_available = (backend_status env = Inr True)\<rparr>"
  have raises: "\<not> ollama_running ?st \<and> \<not> model_available ?st"
    if "\<exists>e. ollama_list env = Inl e"
    using that by (auto simp: backend_status_def)
  have no_models: "\<not> ollama_running ?st \<and> \<not> model_available ?st"
    if "ollama_list env = Inr response \<and> response ''models'' = None" for response
    using that by (auto simp: backend_status_def getitem_def)
  have named: "ollama_running ?st \<and>
            model_available ?st = (\<exists>m \<in> set ms. m ''name'' = Some OLLAMA_MODEL)"
    if "ollama_list env = Inr response \<and> response ''models'' = Some ms \<and>
           (\<forall>m \<in> set ms. m ''name'' \<noteq> None)" for response ms
    using that any_name_is_named [of ms OLLAMA_MODEL]
    by (auto simp: backend_status_def getitem_def)
  have unnamed: "\<not> ollama_running ?st \<and> \<not> model_available ?st"
    if "ollama_list env = Inr response \<and>
           response ''models'' = Some (pre @ m # post) \<and>
           (\<forall>x \<in> set pre. x ''name'' \<noteq> None \<and> x ''name'' \<noteq> Some OLLAMA_MODEL) \<and>
           m ''name'' = None" for response pre m post
    using that any_name_is_unnamed [of pre OLLAMA_MODEL m post]
    by (auto simp: backend_status_def getitem_def)
  have matched: "ollama_running ?st \<and> model_available ?st"
    if "ollama_list env = Inr response \<and>
           response ''models'' = Some (pre @ m # post) \<and>
           (\<forall>x \<in> set pre. x ''name'' \<noteq> None) \<and> m ''name'' = Some OLLAMA_MODEL"
    for response pre m post
    using that any_name_is_match [of pre m OLLAMA_MODEL post]
    by (auto simp: backend_status_def getitem_def)
  have running: "\<exists>response ms. ollama_list env = Inr response \<and> response ''models'' = Some ms"
    if "ollama_running ?st"
    using that backend_status_listing by fastforce
  have available: "ollama_running ?st \<and>
            (\<exists>response ms. ollama_list env = Inr response \<and> response ''models'' = Some ms \<and>
               (\<exists>m \<in> set ms. m ''name'' = Some OLLAMA_MODEL))"
    if "model_available ?st"
  proof -
    from that have b: "backend_status env = Inr True" by simp
    from backend_status_listing [OF b] any_name_is_found b show ?thesis
      by fastforce
  qed
  have "health_check env s = (Inr ?st, s) \<and> csv_loaded ?st = (csv_file s \<noteq> None)"
    by (simp add: health_check_eq)
  with raises no_models named unnamed matched running available show ?thesis
    by blast
qed

lemma health_local:
  "health_check local_env sales_file =
     (Inr \<lparr>csv_loaded = True, ollama_running = True, model_available = True\<rparr>, sales_file)"
  by (simp add: health_check_def health_body_def backend_status_def getitem_def path_exists_def
        local_env_simps OLLAMA_MODEL_def sales_file_def)

theorem health_check_status_witness:
  "ollama_list local_env = Inr [''models'' \<mapsto> [[''name'' \<mapsto> ''phi3'']]] \<and>
   csv_file sales_file = Some sales_csv \<and>
   health_check local_env sales_file =
     (Inr \<lparr>csv_loaded = True, ollama_running = True, model_available = True\<rparr>, sales_file)"
  using health_check_status [of local_env sales_file]
  by (simp add: health_local local_env_simps) (simp add: sales_file_def)

text \<open>
  C7 as stated fails where the listing call succeeds and a listed model has no
  \<^verbatim>\<open>'name'\<close>: the \<^verbatim>\<open>KeyError\<close> of \<^verbatim>\<open>model['name']\<close> is raised while the argument of
  \<^verbatim>\<open>status.update\<close> is evaluated, so \<open>ollama_running\<close> stays false although the
  backend answered.
\<close>

theorem health_check_unnamed_models:
  "ollama_list unnamed_env = Inr unnamed_models \<and>
   health_check unnamed_env sales_file =
     (Inr \<lparr>csv_loaded = True, ollama_running = False, model_available = False\<rparr>, sales_file)"
  by (simp add: health_check_def health_body_def backend_status_def getitem_def path_exists_def
        unnamed_env_def unnamed_models_def sales_file_def)

lemma context_prompt_parts:
  "sublist p (context_prompt p q)"
  "sublist q (context_prompt p q)"
  "sublist exact_values_instruction (context_prompt p q)"
proof -
  have "context_prompt p q =
      ([CHR 0x0A] @ indent @ ''Analise estes dados de vendas:'' @ [CHR 0x0A] @ indent) @ p
      @ ([CHR 0x0A] @ [CHR 0x0A] @ indent @ ''Pergunta: '' @ q @ [CHR 0x0A]
         @ indent @ exact_values_instruction @ [CHR 0x0A] @ indent)"
    by (simp add: context_prompt_def)
  then show "sublist p (context_prompt p q)"
    by (metis sublist_appendI)
  have "context_prompt p q =
      ([CHR 0x0A] @ indent @ ''Analise estes dados de vendas:'' @ [CHR 0x0A] @ indent @ p
         @ [CHR 0x0A] @ [CHR 0x0A] @ indent @ ''Pergunta: '') @ q
      @ ([CHR 0x0A] @ indent @ exact_values_instruction @ [CHR 0x0A] @ indent)"
    by (simp add: context_prompt_def)
  then show "sublist q (context_prompt p q)"
    by (metis sublist_appendI)
  have "context_prompt p q =
      ([CHR 0x0A] @ indent @ ''Analise estes dados de vendas:'' @ [CHR 0x0A] @ indent @ p
         @ [CHR 0x0A] @ [CHR 0x0A] @ indent @ ''Pergunta: '' @ q @ [CHR 0x0A] @ indent)
      @ exact_values_instruction @ ([CHR 0x0A] @ indent)"
    by (simp add: context_prompt_def)
  then show "sublist exact_values_instruction (context_prompt p q)"
    by (metis sublist_appendI)
qed

lemma data_preview_cases:
  "data_preview env df = Inr p \<Longrightarrow>
     to_markdown env (head df) = Inr p \<or>
     ((\<exists>e. to_markdown env (head df) = Inl e) \<and> to_string env (head df) = Inr p)"
  by (auto simp: data_preview_def split: sum.splits)

text \<open>
  C8. When \<open>ask\<close> returns a body, its \<open>question\<close> is the question asked, and there are
  the file's text, the table parsed from it and a preview such that: the preview renders
  the table cut to its first five rows, with \<^verbatim>\<open>to_markdown\<close>, or with \<^verbatim>\<open>to_string\<close> when
  \<^verbatim>\<open>to_markdown\<close> raised; exactly one request was sent to the backend, whose prompt
  contains the preview, the question and the instruction to answer with exact values;
  and the \<open>answer\<close> is the \<^verbatim>\<open>'response'\<close> entry of what the backend returned for that
  request.
\<close>

theorem ask_success_prompt:
  assumes "ask env s q = (Inr r, s')"
  shows "question r = q \<and>
     (\<exists>t df p response.
        csv_file s = Some t \<and> read_csv env t = Inr df \<and>
        df_columns (head df) = df_columns df \<and> df_rows (head df) = take 5 (df_rows df) \<and>
        (to_markdown env (head df) = Inr p \<or>
         ((\<exists>e. to_markdown env (head df) = Inl e) \<and> to_string env (head df) = Inr p)) \<and>
        s' = s\<lparr>generate_calls := generate_calls s @ [generate_request (context_prompt p q)]\<rparr> \<and>
        prompt (generate_request (context_prompt p q)) = context_prompt p q \<and>
        sublist p (context_prompt p q) \<and> sublist q (context_prompt p q) \<and>
        sublist exact_values_instruction (context_prompt p q) \<and>
        ollama_generate env (generate_request (context_prompt p q)) = Inr response \<and>
        response ''response'' = Some (answer r))"
proof (cases "install_missing_dependencies env")
  case (Inl e)
  with assms show ?thesis by (simp add: ask_install_fails)
next
  case (Inr u)
  show ?thesis
  proof (cases "csv_file s")
    case None
    with Inr assms show ?thesis by (simp add: ask_no_file)
  next
    case (Some t)
    show ?thesis
    proof (cases "read_csv env t")
      case (Inl e)
      with Inr Some assms show ?thesis by (simp add: ask_read_fails)
    next
      case df: (Inr df)
      show ?thesis
      proof (cases "data_preview env df")
        case (Inl e)
        with Inr Some df assms show ?thesis by (simp add: ask_preview_fails)
      next
        case p: (Inr p)
        from assms obtain response where
          g: "ollama_generate env (generate_request (context_prompt p q)) = Inr response"
          and a: "response ''response'' = Some (answer r)"
          and r: "question r = q"
          and w: "s' = s\<lparr>generate_calls := generate_calls s
                          @ [generate_request (context_prompt p q)]\<rparr>"
          unfolding ask_backend_called [OF Inr Some df p]
          by (auto split: sum.splits option.splits)
        have h: "df_columns (head df) = df_columns df \<and> df_rows (head df) = take 5 (df_rows df)"
          by (simp add: head_def)
        have pr: "prompt (generate_request (context_prompt p q)) = context_prompt p q"
          by (simp add: generate_request_def)
        from Some df h data_preview_cases [OF p] w pr context_prompt_parts g a r
        show ?thesis by blast
      qed
    qed
  qed
qed

theorem ask_success_prompt_witness:
  "ask local_env sales_file ''What is the total?'' =
     (Inr \<lparr>question = ''What is the total?'', answer = ''50.0''\<rparr>,
      sales_file\<lparr>generate_calls := generate_calls sales_file
           @ [generate_request (context_prompt (render_rows '' | '' (head sales_df)) ''What is the total?'')]\<rparr>) \<and>
   question \<lparr>question = ''What is the total?'', answer = ''50.0''\<rparr> = ''What is the total?'' \<and>
   sublist ''What is the total?''
     (context_prompt (render_rows '' | '' (head sales_df)) ''What is the total?'')"
proof -
  have f: "csv_file sales_file = Some sales_csv" by (simp add: sales_file_def)
  note a = ask_sales [OF f, of "''What is the total?''"]
  from ask_success_prompt [OF a] a context_prompt_parts(2) show ?thesis
    by simp
qed

lemma failing_disk_simps:
  "decode_utf8 short_write_env = decode_utf8 local_env"
  "read_csv short_write_env = read_csv local_env"
  "to_csv short_write_env = to_csv local_env"
  "disk_write short_write_env df = WriteFailed (PyExn ''OSError'' ''No space left on device'') 10"
  "decode_utf8 read_only_env = decode_utf8 local_env"
  "read_csv read_only_env = read_csv local_env"
  "disk_write read_only_env df = OpenFailed (PyExn ''PermissionError'' ''Permission denied'')"
  by (simp_all add: short_write_env_def read_only_env_def)

lemma old_has_required: "required_columns \<subseteq> set (df_columns old_df)"
  using nothing_missing(2) by blast

lemma upload_old_short_write:
  "upload_file short_write_env s (UploadFile (Inr old_csv)) =
     (Inl (HTTPException 400 ''No space left on device''), s\<lparr>csv_file := Some ''date,produ''\<rparr>)"
proof -
  have r: "read (UploadFile (Inr old_csv)) = Inr old_csv" by simp
  have d: "decode_utf8 short_write_env old_csv = Inr old_csv"
    by (simp add: failing_disk_simps decode_ascii)
  have p: "read_csv short_write_env old_csv = Inr old_df"
    by (simp add: failing_disk_simps local_env_simps)
  have "take 10 (to_csv short_write_env old_df) = ''date,produ''"
    by (simp add: failing_disk_simps local_env_simps old_csv_def)
  then show ?thesis
    by (simp add: upload_file_reaches_write [OF r d p old_has_required] failing_disk_simps)
qed

lemma upload_old_read_only:
  "upload_file read_only_env s (UploadFile (Inr old_csv)) =
     (Inl (HTTPException 400 ''Permission denied''), s)"
proof -
  have r: "read (UploadFile (Inr old_csv)) = Inr old_csv" by simp
  have d: "decode_utf8 read_only_env old_csv = Inr old_csv"
    by (simp add: failing_disk_simps decode_ascii)
  have p: "read_csv read_only_env old_csv = Inr old_df"
    by (simp add: failing_disk_simps local_env_simps)
  show ?thesis
    by (simp add: upload_file_reaches_write [OF r d p old_has_required] failing_disk_simps)
qed

text \<open>
  C10. Whatever the uploaded file and whatever the libraries do, \<open>upload_file\<close> returns
  its success body or fails with status 400, and no path gives another status. Each
  exception inside the handler ends in the same \<^verbatim>\<open>except Exception\<close> clause and gives
  status 400: a read that raises, bytes that are not UTF-8, text that is no CSV, a
  missing column, a path that cannot be opened and a write that raises midway; the
  success body comes exactly when none of them happens.
\<close>

theorem upload_file_ok_or_400:
  "((\<exists>r. upload_file env s file = (Inr r, snd (upload_file env s file))
         \<and> http_status (fst (upload_file env s file)) = 200) \<or>
    (\<exists>d. upload_file env s file = (Inl (HTTPException 400 d), snd (upload_file env s file))
         \<and> http_status (fst (upload_file env s file)) = 400)) \<and>
   (\<forall>e. read file = Inl e \<longrightarrow>
      upload_file env s file = (Inl (HTTPException 400 (exn_str e)), s)) \<and>
   (\<forall>b e. read file = Inr b \<and> decode_utf8 env b = Inl e \<longrightarrow>
      upload_file env s file = (Inl (HTTPException 400 (exn_str e)), s)) \<and>
   (\<forall>b tx e. read file = Inr b \<and> decode_utf8 env b = Inr tx \<and> read_csv env tx = Inl e \<longrightarrow>
      upload_file env s file = (Inl (HTTPException 400 (exn_str e)), s)) \<and>
   (\<forall>b tx df. read file = Inr b \<and> decode_utf8 env b = Inr tx \<and> read_csv env tx = Inr df \<and>
        \<not> required_columns \<subseteq> set (df_columns df) \<longrightarrow>
      (\<exists>d. upload_file env s file = (Inl (HTTPException 400 d), s))) \<and>
   (\<forall>b tx df e. read file = Inr b \<and> decode_utf8 env b = Inr tx \<and> read_csv env tx = Inr df \<and>
        required_columns \<subseteq> set (df_columns df) \<and> disk_write env df = OpenFailed e \<longrightarrow>
      upload_file env s file = (Inl (HTTPException 400 (exn_str e)), s)) \<and>
   (\<forall>b tx df e n. read file = Inr b \<and> decode_utf8 env b = Inr tx \<and> read_csv env tx = Inr df \<and>
        required_columns \<subseteq> set (df_columns df) \<and> disk_write env df = WriteFailed e n \<longrightarrow>
      upload_file env s file =
        (Inl (HTTPException 400 (exn_str e)), s\<lparr>csv_file := Some (take n (to_csv env df))\<rparr>)) \<and>
   (\<forall>b tx df. read file = Inr b \<and> decode_utf8 env b = Inr tx \<and> read_csv env tx = Inr df \<and>
        required_columns \<subseteq> set (df_columns df) \<and> disk_write env df = Written \<longrightarrow>
      http_status (fst (upload_file env s file)) = 200 \<and>
      (\<exists>r. upload_file env s file = (Inr r, s\<lparr>csv_file := Some (to_csv env df)\<rparr>)))"
proof -
  have total: "(\<exists>r. upload_file env s file = (Inr r, snd (upload_file env s file))
         \<and> http_status (fst (upload_file env s file)) = 200) \<or>
    (\<exists>d. upload_file env s file = (Inl (HTTPException 400 d), snd (upload_file env s file))
         \<and> http_status (fst (upload_file env s file)) = 400)"
  proof (cases "upload_body env s file")
    case (Pair r s')
    then show ?thesis
      by (cases r) (simp_all add: upload_file_def)
  qed
  have rd: "\<forall>e. read file = Inl e \<longrightarrow>
      upload_file env s file = (Inl (HTTPException 400 (exn_str e)), s)"
    by (simp add: upload_read_fails)
  have dc: "\<forall>b e. read file = Inr b \<and> decode_utf8 env b = Inl e \<longrightarrow>
      upload_file env s file = (Inl (HTTPException 400 (exn_str e)), s)"
    by (simp add: upload_decode_fails)
  have ps: "\<forall>b tx e. read file = Inr b \<and> decode_utf8 env b = Inr tx \<and> read_csv env tx = Inl e \<longrightarrow>
      upload_file env s file = (Inl (HTTPException 400 (exn_str e)), s)"
    using upload_parse_fails by blast
  have ms: "\<forall>b tx df. read file = Inr b \<and> decode_utf8 env b = Inr tx \<and> read_csv env tx = Inr df \<and>
        \<not> required_columns \<subseteq> set (df_columns df) \<longrightarrow>
      (\<exists>d. upload_file env s file = (Inl (HTTPException 400 d), s))"
    using upload_columns_missing by blast
  have op: "upload_file env s file = (Inl (HTTPException 400 (exn_str e)), s)"
    if "read file = Inr b \<and> decode_utf8 env b = Inr tx \<and> read_csv env tx = Inr df \<and>
        required_columns \<subseteq> set (df_columns df) \<and> disk_write env df = OpenFailed e"
    for b tx df e
  proof -
    from that have h: "read file = Inr b" "decode_utf8 env b = Inr tx" "read_csv env tx = Inr df"
      "required_columns \<subseteq> set (df_columns df)" and w: "disk_write env df = OpenFailed e"
      by simp_all
    show ?thesis using w by (simp add: upload_file_reaches_write [OF h])
  qed
  have wr: "upload_file env s file =
        (Inl (HTTPException 400 (exn_str e)), s\<lparr>csv_file := Some (take n (to_csv env df))\<rparr>)"
    if "read file = Inr b \<and> decode_utf8 env b = Inr tx \<and> read_csv env tx = Inr df \<and>
        required_columns \<subseteq> set (df_columns df) \<and> disk_write env df = WriteFailed e n"
    for b tx df e n
  proof -
    from that have h: "read file = Inr b" "decode_utf8 env b = Inr tx" "read_csv env tx = Inr df"
      "required_columns \<subseteq> set (df_columns df)" and w: "disk_write env df = WriteFailed e n"
      by simp_all
    show ?thesis using w by (simp add: upload_file_reaches_write [OF h])
  qed
  have ok: "http_status (fst (upload_file env s file)) = 200 \<and>
      (\<exists>r. upload_file env s file = (Inr r, s\<lparr>csv_file := Some (to_csv env df)\<rparr>))"
    if "read file = Inr b \<and> decode_utf8 env b = Inr tx \<and> read_csv env tx = Inr df \<and>
        required_columns \<subseteq> set (df_columns df) \<and> disk_write env df = Written"
    for b tx df
  proof -
    from that have h: "read file = Inr b" "decode_utf8 env b = Inr tx" "read_csv env tx = Inr df"
      "required_columns \<subseteq> set (df_columns df)" and w: "disk_write env df = Written"
      by simp_all
    show ?thesis using w by (simp add: upload_file_reaches_write [OF h])
  qed
  from total rd dc ps ms op wr ok show ?thesis
    by blast
qed

theorem upload_file_ok_or_400_witness:
  "upload_file local_env no_file (UploadFile (Inl (PyExn ''OSError'' ''read failed''))) =
     (Inl (HTTPException 400 ''read failed''), no_file) \<and>
   upload_file local_env no_file (UploadFile (Inr [CHR 0xFF])) =
     (Inl (HTTPException 400 ''invalid start byte''), no_file) \<and>
   upload_file local_env no_file (UploadFile (Inr ''no csv'')) =
     (Inl (HTTPException 400 ''Error tokenizing data''), no_file) \<and>
   upload_file read_only_env sales_file (UploadFile (Inr old_csv)) =
     (Inl (HTTPException 400 ''Permission denied''), sales_file) \<and>
   upload_file short_write_env sales_file (UploadFile (Inr old_csv)) =
     (Inl (HTTPException 400 ''No space left on device''),
      sales_file\<lparr>csv_file := Some ''date,produ''\<rparr>) \<and>
   http_status (fst (upload_file local_env no_file (UploadFile (Inr sales_csv)))) = 200"
proof -
  have r: "read (UploadFile (Inr sales_csv)) = Inr sales_csv" by simp
  note h = r decode_ascii(1) local_env_simps(1) sales_has_required
    local_env_simps(6) [of sales_df]
  have e: "read (UploadFile (Inl (PyExn ''OSError'' ''read failed''))) = Inl (PyExn ''OSError'' ''read failed'')"
    by simp
  have p: "upload_file local_env no_file (UploadFile (Inr ''no csv'')) =
     (Inl (HTTPException 400 ''Error tokenizing data''), no_file)"
    by (simp add: upload_file_def upload_body_def local_env_def sales_csv_def no_total_csv_def
          old_csv_def)
  from upload_file_ok_or_400 [of local_env no_file "UploadFile (Inr sales_csv)"] h
  have "http_status (fst (upload_file local_env no_file (UploadFile (Inr sales_csv)))) = 200"
    by blast
  moreover
  from upload_file_ok_or_400 [of local_env no_file "UploadFile (Inl (PyExn ''OSError'' ''read failed''))"] e
  have "upload_file local_env no_file (UploadFile (Inl (PyExn ''OSError'' ''read failed''))) =
     (Inl (HTTPException 400 ''read failed''), no_file)"
    by simp
  ultimately show ?thesis
    by (simp add: upload_undecodable p upload_old_read_only upload_old_short_write)
qed

text \<open>
  C9 (as amended). \<open>ask\<close> and \<open>health_check\<close> leave the file at \<^verbatim>\<open>CSV_PATH\<close> as it was,
  in its existence and in its content, whatever they return. An \<open>upload_file\<close> after
  which the file differs is one that reached the write of the file: it succeeded and
  the file holds the new table, or the write raised after the path was opened and the
  file holds what was written until then.
\<close>

theorem ask_health_keep_file:
  "csv_file (snd (ask env s q)) = csv_file s \<and>
   csv_file (snd (health_check env s)) = csv_file s \<and>
   (csv_file (snd (upload_file env s file)) \<noteq> csv_file s \<longrightarrow>
      (\<exists>b tx df. read file = Inr b \<and> decode_utf8 env b = Inr tx \<and> read_csv env tx = Inr df \<and>
         required_columns \<subseteq> set (df_columns df) \<and>
         ((disk_write env df = Written \<and>
           (\<exists>r. upload_file env s file = (Inr r, s\<lparr>csv_file := Some (to_csv env df)\<rparr>))) \<or>
          (\<exists>e n. disk_write env df = WriteFailed e n \<and>
             upload_file env s file =
               (Inl (HTTPException 400 (exn_str e)),
                s\<lparr>csv_file := Some (take n (to_csv env df))\<rparr>)))))"
proof -
  have "\<exists>b tx df. read file = Inr b \<and> decode_utf8 env b = Inr tx \<and> read_csv env tx = Inr df \<and>
         required_columns \<subseteq> set (df_columns df) \<and>
         ((disk_write env df = Written \<and>
           (\<exists>r. upload_file env s file = (Inr r, s\<lparr>csv_file := Some (to_csv env df)\<rparr>))) \<or>
          (\<exists>e n. disk_write env df = WriteFailed e n \<and>
             upload_file env s file =
               (Inl (HTTPException 400 (exn_str e)),
                s\<lparr>csv_file := Some (take n (to_csv env df))\<rparr>)))"
    if changed: "csv_file (snd (upload_file env s file)) \<noteq> csv_file s"
  proof (cases "read file")
    case (Inl e)
    with changed show ?thesis by (simp add: upload_read_fails)
  next
    case b: (Inr b)
    show ?thesis
    proof (cases "decode_utf8 env b")
      case (Inl e)
      with changed b show ?thesis by (simp add: upload_decode_fails)
    next
      case tx: (Inr tx)
      show ?thesis
      proof (cases "read_csv env tx")
        case (Inl e)
        with changed b tx show ?thesis by (simp add: upload_parse_fails)
      next
        case df: (Inr df)
        show ?thesis
        proof (cases "required_columns \<subseteq> set (df_columns df)")
          case False
          with changed show ?thesis
            by (simp add: upload_columns_missing [OF b tx df])
        next
          case True
          note w = upload_file_reaches_write [OF b tx df True, of s]
          show ?thesis
          proof (cases "disk_write env df")
            case Written
            with w b tx df True show ?thesis by auto
          next
            case (OpenFailed e)
            with w changed show ?thesis by simp
          next
            case (WriteFailed e n)
            with w b tx df True show ?thesis by auto
          qed
        qed
      qed
    qed
  qed
  then show ?thesis
    by (simp add: ask_csv_file health_check_world)
qed

theorem ask_health_keep_file_witness:
  "csv_file (snd (upload_file local_env no_file (UploadFile (Inr sales_csv)))) \<noteq> csv_file no_file \<and>
   upload_file local_env no_file (UploadFile (Inr sales_csv)) =
     (Inr \<lparr>message = ''Arquivo salvo com sucesso'',
            columns = [''date'', ''product'', ''quantity'', ''total'']\<rparr>,
      no_file\<lparr>csv_file := Some sales_csv\<rparr>) \<and>
   csv_file (snd (ask local_env sales_file ''What is the total?'')) = Some sales_csv \<and>
   csv_file (snd (health_check local_env sales_file)) = Some sales_csv"
  using ask_health_keep_file [of local_env sales_file "''What is the total?''"
      "UploadFile (Inr sales_csv)"]
    ask_health_keep_file [of local_env no_file "''What is the total?''"
      "UploadFile (Inr sales_csv)"]
  by (simp add: upload_sales no_file_def sales_file_def)

text \<open>
  C9 as stated fails in its last clause: an upload whose write raises midway fails with
  status 400 and has already replaced the file by the characters written until then.
\<close>

theorem failed_upload_truncates_file:
  "csv_file sales_file = Some sales_csv \<and>
   fst (upload_file short_write_env sales_file (UploadFile (Inr old_csv))) =
     Inl (HTTPException 400 ''No space left on device'') \<and>
   csv_file (snd (upload_file short_write_env sales_file (UploadFile (Inr old_csv)))) =
     Some ''date,produ''"
  by (simp add: upload_old_short_write) (simp add: sales_file_def)

end
